theory Spec2Isabelle
  imports Main
begin

unbundle bit_operations_syntax

section \<open>Python values\<close>

text \<open>
  The scripts handle JSON-like scalars: \<^verbatim>\<open>None\<close>, booleans, unbounded integers and
  strings. Strings are modelled as their UTF-8 bytes (one \<^typ>\<open>char\<close> per byte), which is
  what \<^verbatim>\<open>message.encode()\<close> hands to the hash.
\<close>

datatype pyval = PyNone | PyBool bool | PyInt int | PyStr string

datatype py_error = ValueError | BinasciiError

text \<open>\<^verbatim>\<open>type(v).__name__\<close>\<close>

fun type_name :: "pyval \<Rightarrow> string" where
  "type_name PyNone = ''NoneType''"
| "type_name (PyBool b) = ''bool''"
| "type_name (PyInt i) = ''int''"
| "type_name (PyStr s) = ''str''"

text \<open>
  Python's \<^verbatim>\<open>==\<close> on these values: \<^verbatim>\<open>bool\<close> is a subclass of \<^verbatim>\<open>int\<close>
  (\<^verbatim>\<open>True == 1\<close>), strings compare character by character, and values of unrelated
  types are unequal.
\<close>

fun py_eq :: "pyval \<Rightarrow> pyval \<Rightarrow> bool" where
  "py_eq PyNone PyNone = True"
| "py_eq (PyBool a) (PyBool b) = (a = b)"
| "py_eq (PyBool a) (PyInt j) = ((if a then 1 else 0) = j)"
| "py_eq (PyInt i) (PyBool b) = (i = (if b then 1 else 0))"
| "py_eq (PyInt i) (PyInt j) = (i = j)"
| "py_eq (PyStr s) (PyStr t) = (s = t)"
| "py_eq _ _ = False"

text \<open>\<^verbatim>\<open>str(n)\<close> for an integer: decimal digits, most significant first, no padding.\<close>

definition digit_char :: "int \<Rightarrow> char" where
  "digit_char d = char_of (48 + d)"

function str_nonneg :: "int \<Rightarrow> string" where
  "str_nonneg n = (if n < 10 then [digit_char n] else str_nonneg (n div 10) @ [digit_char (n mod 10)])"
  by pat_completeness auto
termination
  by (relation "measure nat") auto

definition str_int :: "int \<Rightarrow> string" where
  "str_int i = (if i < 0 then CHR ''-'' # str_nonneg (- i) else str_nonneg i)"

text \<open>\<^verbatim>\<open>str(v)\<close>\<close>

fun py_str :: "pyval \<Rightarrow> string" where
  "py_str PyNone = ''None''"
| "py_str (PyBool b) = (if b then ''True'' else ''False'')"
| "py_str (PyInt i) = str_int i"
| "py_str (PyStr s) = s"

text \<open>
  \<^verbatim>\<open>s.replace(old, new)\<close>: every non-overlapping occurrence of \<^verbatim>\<open>old\<close>, scanning from
  the left; an empty \<^verbatim>\<open>old\<close> matches before every character and at the end.
\<close>

function replace_py :: "string \<Rightarrow> string \<Rightarrow> string \<Rightarrow> string" where
  "replace_py old new [] = (if old = [] then new else [])"
| "replace_py old new (c # cs) =
     (if old = [] then new @ c # replace_py old new cs
      else if take (length old) (c # cs) = old
        then new @ replace_py old new (drop (length old) (c # cs))
      else c # replace_py old new cs)"
  by pat_completeness auto
termination
  by (relation "measure (\<lambda>(old, new, s). length s)") auto

section \<open>test\_hmac.py: the authentication message\<close>

text \<open>
  \<^verbatim>\<open>message = str(timestamp) + str(method) + str(request_path)\<close>, then
  \<^verbatim>\<open>if body: message += str(body).replace("'", '"')\<close>. The body parameter defaults to the
  empty string; \<open>None\<close> stands for a call that leaves it out.
\<close>

definition hmac_message :: "pyval \<Rightarrow> string \<Rightarrow> string \<Rightarrow> string option \<Rightarrow> string" where
  "hmac_message timestamp method request_path body =
     (let message = py_str timestamp @ method @ request_path;
          b = (case body of None \<Rightarrow> [] | Some s \<Rightarrow> s)
      in if b \<noteq> [] then message @ replace_py [CHR 0x27] [CHR 0x22] b else message)"

section \<open>Library functions called by test\_hmac.py\<close>

text \<open>
  Bytes and 32-bit words are integers with the range written out: every result of an
  operation on words is reduced to 32 bits.
\<close>

type_synonym byte = int
type_synonym u32 = int

subsection \<open>\<^verbatim>\<open>base64.urlsafe_b64decode\<close> and \<^verbatim>\<open>base64.urlsafe_b64encode\<close>\<close>

text \<open>The decoding table of \<^verbatim>\<open>binascii\<close>: the value of a character of the standard alphabet.\<close>

definition b64_value :: "char \<Rightarrow> int option" where
  "b64_value c =
     (let n = (of_char c :: int) in
      if 65 \<le> n \<and> n \<le> 90 then Some (n - 65)
      else if 97 \<le> n \<and> n \<le> 122 then Some (n - 71)
      else if 48 \<le> n \<and> n \<le> 57 then Some (n + 4)
      else if n = 43 then Some 62
      else if n = 47 then Some 63
      else None)"

text \<open>
  \<^verbatim>\<open>binascii.a2b_base64\<close> in its default, non-strict mode, as a loop over the input with
  the state of the C implementation: the position in the current quad, the bits left over
  from the previous character, the number of pad characters seen in a row, and the
  output so far. A pad character that completes a quad ends the decoding; a character
  outside the alphabet is skipped; an unfinished quad at the end of the input is an error.
\<close>

fun a2b_base64_loop :: "nat \<Rightarrow> int \<Rightarrow> nat \<Rightarrow> byte list \<Rightarrow> string \<Rightarrow> py_error + byte list" where
  "a2b_base64_loop quad_pos leftchar pads out [] =
     (if quad_pos \<noteq> 0 then Inl BinasciiError else Inr out)"
| "a2b_base64_loop quad_pos leftchar pads out (c # cs) =
     (if c = CHR ''='' then
        (if 2 \<le> quad_pos then
           (if 4 \<le> quad_pos + (pads + 1) then Inr out
            else a2b_base64_loop quad_pos leftchar (pads + 1) out cs)
         else a2b_base64_loop quad_pos leftchar pads out cs)
      else case b64_value c of
        None \<Rightarrow> a2b_base64_loop quad_pos leftchar pads out cs
      | Some v \<Rightarrow>
          (if quad_pos = 0 then a2b_base64_loop 1 v 0 out cs
           else if quad_pos = 1 then
             a2b_base64_loop 2 (v mod 16) 0 (out @ [(leftchar * 4 + v div 16) mod 256]) cs
           else if quad_pos = 2 then
             a2b_base64_loop 3 (v mod 4) 0 (out @ [(leftchar * 16 + v div 4) mod 256]) cs
           else a2b_base64_loop 0 0 0 (out @ [(leftchar * 64 + v) mod 256]) cs))"

definition a2b_base64 :: "string \<Rightarrow> py_error + byte list" where
  "a2b_base64 s = a2b_base64_loop 0 0 0 [] s"

text \<open>
  \<^verbatim>\<open>urlsafe_b64decode(s)\<close>: a string argument must be ASCII (\<^verbatim>\<open>ValueError\<close> otherwise),
  \<^verbatim>\<open>-\<close> and \<^verbatim>\<open>_\<close> are translated to \<^verbatim>\<open>+\<close> and \<^verbatim>\<open>/\<close>, and the result is decoded.
\<close>

definition urlsafe_decode_translation :: "char \<Rightarrow> char" where
  "urlsafe_decode_translation c =
     (if c = CHR ''-'' then CHR ''+'' else if c = CHR ''_'' then CHR ''/'' else c)"

definition urlsafe_b64decode :: "string \<Rightarrow> py_error + byte list" where
  "urlsafe_b64decode s =
     (if list_ex (\<lambda>c. 128 \<le> (of_char c :: int)) s then Inl ValueError
      else a2b_base64 (map urlsafe_decode_translation s))"

definition b64_char :: "int \<Rightarrow> char" where
  "b64_char v =
     (if v < 26 then char_of (65 + v)
      else if v < 52 then char_of (71 + v)
      else if v < 62 then char_of (v - 4)
      else if v = 62 then CHR ''+'' else CHR ''/'')"

fun b2a_base64 :: "byte list \<Rightarrow> string" where
  "b2a_base64 (a # b # c # rest) =
     b64_char (a div 4) # b64_char ((a mod 4) * 16 + b div 16) #
     b64_char ((b mod 16) * 4 + c div 64) # b64_char (c mod 64) # b2a_base64 rest"
| "b2a_base64 [a, b] =
     [b64_char (a div 4), b64_char ((a mod 4) * 16 + b div 16), b64_char ((b mod 16) * 4), CHR ''='']"
| "b2a_base64 [a] = [b64_char (a div 4), b64_char ((a mod 4) * 16), CHR ''='', CHR ''='']"
| "b2a_base64 [] = []"

definition urlsafe_encode_translation :: "char \<Rightarrow> char" where
  "urlsafe_encode_translation c =
     (if c = CHR ''+'' then CHR ''-'' else if c = CHR ''/'' then CHR ''_'' else c)"

definition urlsafe_b64encode :: "byte list \<Rightarrow> string" where
  "urlsafe_b64encode bs = map urlsafe_encode_translation (b2a_base64 bs)"

subsection \<open>\<^verbatim>\<open>hashlib.sha256\<close>\<close>

definition add32 :: "u32 \<Rightarrow> u32 \<Rightarrow> u32" where
  "add32 a b = (a + b) AND 0xFFFFFFFF"

definition rotr :: "nat \<Rightarrow> u32 \<Rightarrow> u32" where
  "rotr n x = (drop_bit n x OR push_bit (32 - n) x) AND 0xFFFFFFFF"

definition shr :: "nat \<Rightarrow> u32 \<Rightarrow> u32" where
  "shr n x = drop_bit n x"

definition not32 :: "u32 \<Rightarrow> u32" where
  "not32 x = x XOR 0xFFFFFFFF"

definition Ch :: "u32 \<Rightarrow> u32 \<Rightarrow> u32 \<Rightarrow> u32" where
  "Ch x y z = (x AND y) XOR (not32 x AND z)"

definition Maj :: "u32 \<Rightarrow> u32 \<Rightarrow> u32 \<Rightarrow> u32" where
  "Maj x y z = (x AND y) XOR (x AND z) XOR (y AND z)"

definition Sigma0 :: "u32 \<Rightarrow> u32" where
  "Sigma0 x = rotr 2 x XOR rotr 13 x XOR rotr 22 x"

definition Sigma1 :: "u32 \<Rightarrow> u32" where
  "Sigma1 x = rotr 6 x XOR rotr 11 x XOR rotr 25 x"

definition sigma0 :: "u32 \<Rightarrow> u32" where
  "sigma0 x = rotr 7 x XOR rotr 18 x XOR shr 3 x"

definition sigma1 :: "u32 \<Rightarrow> u32" where
  "sigma1 x = rotr 17 x XOR rotr 19 x XOR shr 10 x"

text \<open>The round constants, in the eight rows of eight of FIPS 180-4.\<close>

definition K256 :: "u32 list" where
  "K256 = concat [
   [0x428a2f98, 0x71374491, 0xb5c0fbcf, 0xe9b5dba5, 0x3956c25b, 0x59f111f1, 0x923f82a4, 0xab1c5ed5],
   [0xd807aa98, 0x12835b01, 0x243185be, 0x550c7dc3, 0x72be5d74, 0x80deb1fe, 0x9bdc06a7, 0xc19bf174],
   [0xe49b69c1, 0xefbe4786, 0x0fc19dc6, 0x240ca1cc, 0x2de92c6f, 0x4a7484aa, 0x5cb0a9dc, 0x76f988da],
   [0x983e5152, 0xa831c66d, 0xb00327c8, 0xbf597fc7, 0xc6e00bf3, 0xd5a79147, 0x06ca6351, 0x14292967],
   [0x27b70a85, 0x2e1b2138, 0x4d2c6dfc, 0x53380d13, 0x650a7354, 0x766a0abb, 0x81c2c92e, 0x92722c85],
   [0xa2bfe8a1, 0xa81a664b, 0xc24b8b70, 0xc76c51a3, 0xd192e819, 0xd6990624, 0xf40e3585, 0x106aa070],
   [0x19a4c116, 0x1e376c08, 0x2748774c, 0x34b0bcb5, 0x391c0cb3, 0x4ed8aa4a, 0x5b9cca4f, 0x682e6ff3],
   [0x748f82ee, 0x78a5636f, 0x84c87814, 0x8cc70208, 0x90befffa, 0xa4506ceb, 0xbef9a3f7, 0xc67178f2]]"

definition H256 :: "u32 list" where
  "H256 = [0x6a09e667, 0xbb67ae85, 0x3c6ef372, 0xa54ff53a,
           0x510e527f, 0x9b05688c, 0x1f83d9ab, 0x5be0cd19]"

text \<open>
  The message schedule is kept as a window of the last sixteen words,
  \<open>W\<^sub>t\<^sub>-\<^sub>1\<^sub>6 \<dots> W\<^sub>t\<^sub>-\<^sub>1\<close>; the next word is
  \<open>\<sigma>\<^sub>1(W\<^sub>t\<^sub>-\<^sub>2) + W\<^sub>t\<^sub>-\<^sub>7 + \<sigma>\<^sub>0(W\<^sub>t\<^sub>-\<^sub>1\<^sub>5) + W\<^sub>t\<^sub>-\<^sub>1\<^sub>6\<close>.
\<close>

fun next_w :: "u32 list \<Rightarrow> u32" where
  "next_w (w0 # w1 # w2 # w3 # w4 # w5 # w6 # w7 # w8 # w9 # w10 # w11 # w12 # w13 # w14 # rest) =
     add32 (add32 (add32 (sigma1 w14) w9) (sigma0 w1)) w0"
| "next_w ws = 0"

fun round_out :: "u32 list \<Rightarrow> u32 \<Rightarrow> u32 \<Rightarrow> u32 list" where
  "round_out [a, b, c, d, e, f, g, h] t1 t2 = [add32 t1 t2, a, b, c, add32 d t1, e, f, g]"
| "round_out s t1 t2 = s"

fun round_step :: "u32 list \<Rightarrow> u32 \<Rightarrow> u32 \<Rightarrow> u32 list" where
  "round_step [a, b, c, d, e, f, g, h] k w =
     round_out [a, b, c, d, e, f, g, h]
       (add32 (add32 (add32 (add32 h (Sigma1 e)) (Ch e f g)) k) w)
       (add32 (Sigma0 a) (Maj a b c))"
| "round_step s k w = s"

fun rounds :: "u32 list \<Rightarrow> u32 list \<Rightarrow> u32 list \<Rightarrow> u32 list" where
  "rounds [] win s = s"
| "rounds (k # ks) win s = rounds ks (tl win @ [next_w win]) (round_step s k (hd win))"

definition compress :: "u32 list \<Rightarrow> u32 list \<Rightarrow> u32 list" where
  "compress hs blk = map2 add32 hs (rounds K256 blk hs)"

fun be_bytes :: "nat \<Rightarrow> int \<Rightarrow> byte list" where
  "be_bytes 0 x = []"
| "be_bytes (Suc n) x = be_bytes n (x div 256) @ [x mod 256]"

fun be_words :: "byte list \<Rightarrow> u32 list" where
  "be_words (b0 # b1 # b2 # b3 # rest) =
     (b0 * 16777216 + b1 * 65536 + b2 * 256 + b3) # be_words rest"
| "be_words bs = []"

definition sha256_pad :: "byte list \<Rightarrow> byte list" where
  "sha256_pad msg =
     msg @ [128] @ replicate (nat ((55 - int (length msg)) mod 64)) 0
         @ be_bytes 8 (8 * int (length msg))"

fun sha256_blocks :: "u32 list \<Rightarrow> u32 list \<Rightarrow> u32 list" where
  "sha256_blocks hs (w0 # w1 # w2 # w3 # w4 # w5 # w6 # w7 # w8 # w9 # w10 # w11 # w12 # w13 # w14 # w15 # rest) =
     sha256_blocks
       (compress hs [w0, w1, w2, w3, w4, w5, w6, w7, w8, w9, w10, w11, w12, w13, w14, w15]) rest"
| "sha256_blocks hs ws = hs"

definition sha256 :: "byte list \<Rightarrow> byte list" where
  "sha256 msg = concat (map (be_bytes 4) (sha256_blocks H256 (be_words (sha256_pad msg))))"

subsection \<open>\<^verbatim>\<open>hmac.new(key, msg, hashlib.sha256).digest()\<close>\<close>

definition hmac_key_block :: "byte list \<Rightarrow> byte list" where
  "hmac_key_block key =
     (if 64 < length key then sha256 key @ replicate 32 0
      else key @ replicate (64 - length key) 0)"

definition hmac_sha256 :: "byte list \<Rightarrow> byte list \<Rightarrow> byte list" where
  "hmac_sha256 key msg =
     sha256 (map (\<lambda>b. b XOR 0x5C) (hmac_key_block key)
             @ sha256 (map (\<lambda>b. b XOR 0x36) (hmac_key_block key) @ msg))"

section \<open>test\_hmac.py: the signature\<close>

text \<open>
  \<^verbatim>\<open>build_hmac_signature_python_client\<close>: the message, the decoded secret (the call that
  can raise), the HMAC of the encoded message, and its URL-safe base64 text. The
  \<^verbatim>\<open>print\<close> calls have no part in the result.
\<close>

definition build_hmac_signature_python_client ::
    "string \<Rightarrow> pyval \<Rightarrow> string \<Rightarrow> string \<Rightarrow> string option \<Rightarrow> py_error + string" where
  "build_hmac_signature_python_client secret timestamp method request_path body =
     (case urlsafe_b64decode secret of
        Inl e \<Rightarrow> Inl e
      | Inr decoded_secret \<Rightarrow>
          Inr (urlsafe_b64encode
                (hmac_sha256 decoded_secret
                   (map of_char (hmac_message timestamp method request_path body)))))"

text \<open>The inputs of \<^verbatim>\<open>main\<close>, taken from the logs of the Rust client.\<close>

definition SECRET_BASE64 :: string where
  "SECRET_BASE64 = ''L95OWCgbprfwozNeNUYnvU7A91iM-EH3uDZ6RTZYa-w=''"

definition TIMESTAMP :: string where
  "TIMESTAMP = ''1765824355''"

definition METHOD :: string where
  "METHOD = ''POST''"

definition PATH :: string where
  "PATH = ''/order''"

definition BODY :: string where
  "BODY = ''{\"order\":{\"salt\":327896216,\"maker\":\"0xefa7cd2e9bfa38f04af95df90da90b194e4ed191\",\"signer\":\"0xefa7cd2e9bfa38f04af95df90da90b194e4ed191\",\"taker\":\"0x0000000000000000000000000000000000000000\",\"tokenId\":\"59123046651639406043770531564026866824584320057748742767920960374229735119462\",\"makerAmount\":\"85000\",\"takerAmount\":\"100000\",\"expiration\":\"0\",\"nonce\":\"0\",\"feeRateBps\":\"0\",\"side\":\"BUY\",\"signatureType\":0,\"signature\":\"0x6c96640200869044e2d77ffb01e69209a415d4818a122f297362248ca69246a91c83a52829dd5946e8d0ba36c8afef55592d43b0a8b19327e486846b6f5ec0481c\"},\"owner\":\"1a846e10-1906-c373-b2b9-c853e39a334a\",\"orderType\":\"GTC\"}''"

text \<open>\<^verbatim>\<open>s.rstrip('=')\<close>\<close>

definition rstrip_eq :: "string \<Rightarrow> string" where
  "rstrip_eq s = rev (dropWhile (\<lambda>c. c = CHR ''='') (rev s))"

definition RUST_SIGNATURE :: string where
  "RUST_SIGNATURE = ''fPOEaxvya1QbVkoRPNrv-kxPjv16Ni_mxrqMgCzm-hc''"

text \<open>\<^verbatim>\<open>main\<close>: the signature computed and the verdict printed on the last line.\<close>

definition main_signature :: "py_error + string" where
  "main_signature =
     build_hmac_signature_python_client SECRET_BASE64 (PyStr TIMESTAMP) METHOD PATH (Some BODY)"

definition main_match :: "py_error + bool" where
  "main_match =
     (case main_signature of Inl e \<Rightarrow> Inl e | Inr sig \<Rightarrow> Inr (rstrip_eq sig = RUST_SIGNATURE))"

section \<open>compare\_formats.py\<close>

text \<open>
  A dictionary literal is the list of its items in the order written; its keys are
  distinct. Iterating over a dictionary visits the keys in that order.
\<close>

type_synonym pydict = "(string \<times> pyval) list"

definition PYTHON_ORDER :: pydict where
  "PYTHON_ORDER = [
    (''salt'', PyInt 1297788380),
    (''maker'', PyStr ''0xeFa7Cd2E9BFa38F04Af95df90da90B194e4ed191''),
    (''signer'', PyStr ''0xeFa7Cd2E9BFa38F04Af95df90da90B194e4ed191''),
    (''taker'', PyStr ''0x0000000000000000000000000000000000000000''),
    (''tokenId'', PyStr ''59123046651639406043770531564026866824584320057748742767920960374229735119462''),
    (''makerAmount'', PyStr ''85000''),
    (''takerAmount'', PyStr ''100000''),
    (''expiration'', PyStr ''0''),
    (''nonce'', PyStr ''0''),
    (''feeRateBps'', PyStr ''0''),
    (''side'', PyStr ''BUY''),
    (''signatureType'', PyInt 0),
    (''signature'', PyStr ''0xf17d2cdb17146baacbf404baf3e4857b651d74c89fec74a79fd987ca59e0442572d684f0b1951de5b2746082b6765ade05a3168606f6d3dc24423d1603c34be01b'')]"

definition RUST_ORDER :: pydict where
  "RUST_ORDER = [
    (''salt'', PyInt 425011855),
    (''maker'', PyStr ''0xeFa7Cd2E9BFa38F04Af95df90da90B194e4ed191''),
    (''signer'', PyStr ''0xeFa7Cd2E9BFa38F04Af95df90da90B194e4ed191''),
    (''taker'', PyStr ''0x0000000000000000000000000000000000000000''),
    (''tokenId'', PyStr ''59123046651639406043770531564026866824584320057748742767920960374229735119462''),
    (''makerAmount'', PyStr ''85000''),
    (''takerAmount'', PyStr ''100000''),
    (''expiration'', PyStr ''0''),
    (''nonce'', PyStr ''0''),
    (''feeRateBps'', PyStr ''0''),
    (''side'', PyStr ''BUY''),
    (''signatureType'', PyInt 0),
    (''signature'', PyStr ''0x9456c9d3c3a06b227eb067c210fa1221de0455ace43bcd5b3404e3b24cbb1d624e5bc1775909793ad3d9749b1f1f71eebf959e6e92419fc4eb635afe44ed3b921b'')]"

definition dict_keys :: "pydict \<Rightarrow> string list" where
  "dict_keys d = map fst d"

text \<open>\<^verbatim>\<open>d.get(key)\<close>: \<^verbatim>\<open>None\<close> when the key is absent.\<close>

definition dict_get :: "pydict \<Rightarrow> string \<Rightarrow> pyval" where
  "dict_get d key = (case map_of d key of None \<Rightarrow> PyNone | Some v \<Rightarrow> v)"

text \<open>
  What one pass of the loop computes for a key: the two type names, the verdict
  \<^verbatim>\<open>match\<close> (\<open>True\<close> for the check mark), and for \<^verbatim>\<open>salt\<close> and \<^verbatim>\<open>signature\<close> the
  verdict \<^verbatim>\<open>type_match\<close>, which is the one printed for these two keys.
\<close>

record field_report =
  fr_key :: string
  fr_py_val :: pyval
  fr_rust_val :: pyval
  fr_py_type :: string
  fr_rust_type :: string
  fr_match :: bool
  fr_type_match :: "bool option"

definition compare_field :: "pydict \<Rightarrow> string \<Rightarrow> pyval \<Rightarrow> field_report" where
  "compare_field rust key py_val =
     (let rust_val = dict_get rust key;
          py_type = type_name py_val;
          rust_type = (if rust_val \<noteq> PyNone then type_name rust_val else ''MISSING'')
      in \<lparr> fr_key = key, fr_py_val = py_val, fr_rust_val = rust_val,
           fr_py_type = py_type, fr_rust_type = rust_type,
           fr_match = (py_eq py_val rust_val \<or> key \<in> set [''salt'', ''signature'']),
           fr_type_match =
             (if key \<in> set [''salt'', ''signature''] then Some (py_type = rust_type) else None) \<rparr>)"

text \<open>
  The whole script on two dictionaries: the loop over the keys of the Python order, then
  the two key-set differences (each printed when it is not empty) and the test that
  the key sets are equal.
\<close>

record comparison =
  field_reports :: "field_report list"
  extra_keys :: "string set"
  missing_keys :: "string set"
  same_keys :: bool

definition compare_formats :: "pydict \<Rightarrow> pydict \<Rightarrow> comparison" where
  "compare_formats python rust =
     \<lparr> field_reports = map (\<lambda>(key, py_val). compare_field rust key py_val) python,
       extra_keys = set (dict_keys rust) - set (dict_keys python),
       missing_keys = set (dict_keys python) - set (dict_keys rust),
       same_keys = (set (dict_keys rust) = set (dict_keys python)) \<rparr>"

text \<open>
  Modelled from the spec: the script prints its verdicts and never combines them; the
  flag \<open>overallMatch\<close> of the spec's report is "true iff every non-excluded field matched
  and no extra/missing keys exist", read over what the script computes.
\<close>

definition overallMatch :: "comparison \<Rightarrow> bool" where
  "overallMatch r =
     (list_all (\<lambda>f. fr_key f \<in> set [''salt'', ''signature''] \<or> fr_match f) (field_reports r)
      \<and> extra_keys r = {} \<and> missing_keys r = {})"

section \<open>The order codec\<close>

text \<open>
  Modelled from the spec: \<open>buildOrder\<close>, \<open>attachSignature\<close> and \<open>serializeForTransport\<close>
  (OrderCodec) are missing from the source files, which hold two of their outputs
  (\<open>PYTHON_ORDER\<close>, \<open>RUST_ORDER\<close>). The record and the failures follow the spec's data
  model and error taxonomy; the set of known signature schemes, which the spec leaves
  open, is a parameter; the transport form is the one of the two recorded orders, as a
  dictionary (its rendering as text is not modelled).
\<close>

datatype order_error =
  InvalidAddress | AmountOverflow | InvalidSide | InvalidSignatureType | InvalidSignatureLength

record order_params =
  p_maker :: string
  p_signer :: string
  p_taker :: string
  p_tokenId :: int
  p_makerAmount :: int
  p_takerAmount :: int
  p_expiration :: int
  p_nonce :: int
  p_feeRateBps :: int
  p_side :: string
  p_signatureType :: int

record canonical_order =
  o_salt :: int
  o_maker :: string
  o_signer :: string
  o_taker :: string
  o_tokenId :: int
  o_makerAmount :: int
  o_takerAmount :: int
  o_expiration :: int
  o_nonce :: int
  o_feeRateBps :: int
  o_side :: string
  o_signatureType :: int
  o_signature :: "string option"

definition is_hex_digit :: "char \<Rightarrow> bool" where
  "is_hex_digit c =
     (let n = (of_char c :: int) in
      (48 \<le> n \<and> n \<le> 57) \<or> (65 \<le> n \<and> n \<le> 70) \<or> (97 \<le> n \<and> n \<le> 102))"

definition is_hex_string :: "nat \<Rightarrow> string \<Rightarrow> bool" where
  "is_hex_string n_bytes s =
     (take 2 s = ''0x'' \<and> length s = 2 + 2 * n_bytes \<and> list_all is_hex_digit (drop 2 s))"

definition fits_bits :: "nat \<Rightarrow> int \<Rightarrow> bool" where
  "fits_bits w x = (0 \<le> x \<and> x < 2 ^ w)"

definition buildOrder :: "int list \<Rightarrow> order_params \<Rightarrow> int \<Rightarrow> order_error + canonical_order" where
  "buildOrder known_signature_types params salt =
     (if \<not> (is_hex_string 20 (p_maker params) \<and> is_hex_string 20 (p_signer params)
             \<and> is_hex_string 20 (p_taker params))
        then Inl InvalidAddress
      else if \<not> (fits_bits 64 salt \<and> fits_bits 256 (p_tokenId params)
             \<and> fits_bits 256 (p_makerAmount params) \<and> fits_bits 256 (p_takerAmount params)
             \<and> fits_bits 256 (p_expiration params) \<and> fits_bits 256 (p_nonce params)
             \<and> fits_bits 256 (p_feeRateBps params))
        then Inl AmountOverflow
      else if p_side params \<noteq> ''BUY'' \<and> p_side params \<noteq> ''SELL'' then Inl InvalidSide
      else if \<not> List.member known_signature_types (p_signatureType params)
        then Inl InvalidSignatureType
      else Inr \<lparr> o_salt = salt, o_maker = p_maker params, o_signer = p_signer params,
                 o_taker = p_taker params, o_tokenId = p_tokenId params,
                 o_makerAmount = p_makerAmount params, o_takerAmount = p_takerAmount params,
                 o_expiration = p_expiration params, o_nonce = p_nonce params,
                 o_feeRateBps = p_feeRateBps params, o_side = p_side params,
                 o_signatureType = p_signatureType params, o_signature = None \<rparr>)"

definition attachSignature :: "canonical_order \<Rightarrow> string \<Rightarrow> order_error + canonical_order" where
  "attachSignature order sig =
     (if is_hex_string 65 sig then Inr (order\<lparr>o_signature := Some sig\<rparr>)
      else Inl InvalidSignatureLength)"

definition serializeForTransport :: "canonical_order \<Rightarrow> pydict" where
  "serializeForTransport order =
     [(''salt'', PyInt (o_salt order)),
      (''maker'', PyStr (o_maker order)),
      (''signer'', PyStr (o_signer order)),
      (''taker'', PyStr (o_taker order)),
      (''tokenId'', PyStr (str_int (o_tokenId order))),
      (''makerAmount'', PyStr (str_int (o_makerAmount order))),
      (''takerAmount'', PyStr (str_int (o_takerAmount order))),
      (''expiration'', PyStr (str_int (o_expiration order))),
      (''nonce'', PyStr (str_int (o_nonce order))),
      (''feeRateBps'', PyStr (str_int (o_feeRateBps order))),
      (''side'', PyStr (o_side order)),
      (''signatureType'', PyInt (o_signatureType order))]
     @ (case o_signature order of None \<Rightarrow> [] | Some sig \<Rightarrow> [(''signature'', PyStr sig)])"

text \<open>The parameters that the two recorded orders share.\<close>

definition recorded_params :: order_params where
  "recorded_params =
     \<lparr> p_maker = ''0xeFa7Cd2E9BFa38F04Af95df90da90B194e4ed191'',
       p_signer = ''0xeFa7Cd2E9BFa38F04Af95df90da90B194e4ed191'',
       p_taker = ''0x0000000000000000000000000000000000000000'',
       p_tokenId = 59123046651639406043770531564026866824584320057748742767920960374229735119462,
       p_makerAmount = 85000, p_takerAmount = 100000, p_expiration = 0, p_nonce = 0,
       p_feeRateBps = 0, p_side = ''BUY'', p_signatureType = 0 \<rparr>"

text \<open>A decimal string: one digit or more, nothing else.\<close>

definition is_decimal_string :: "string \<Rightarrow> bool" where
  "is_decimal_string s =
     (s \<noteq> [] \<and> list_all (\<lambda>c. 48 \<le> (of_char c :: int) \<and> (of_char c :: int) \<le> 57) s)"

fun is_str :: "pyval \<Rightarrow> bool" where
  "is_str (PyStr s) = True"
| "is_str v = False"

fun is_int :: "pyval \<Rightarrow> bool" where
  "is_int (PyInt i) = True"
| "is_int v = False"

definition declared_order :: "string list" where
  "declared_order = [''salt'', ''maker'', ''signer'', ''taker'', ''tokenId'', ''makerAmount'',
     ''takerAmount'', ''expiration'', ''nonce'', ''feeRateBps'', ''side'', ''signatureType'',
     ''signature'']"

text \<open>
  The shape of an order in transport: the keys in the declared order, the six amounts as
  decimal strings, \<^verbatim>\<open>salt\<close> and \<^verbatim>\<open>signatureType\<close> as integers.
\<close>

definition transport_typing :: "pydict \<Rightarrow> bool" where
  "transport_typing d =
     (dict_keys d = declared_order
      \<and> list_all (\<lambda>k. is_str (dict_get d k) \<and> is_decimal_string (py_str (dict_get d k)))
           [''tokenId'', ''makerAmount'', ''takerAmount'', ''expiration'', ''nonce'', ''feeRateBps'']
      \<and> list_all (\<lambda>k. is_int (dict_get d k)) [''salt'', ''signatureType''])"

text \<open>The order built from the recorded parameters with a given salt and signature.\<close>

definition recorded_order :: "int \<Rightarrow> string option \<Rightarrow> canonical_order" where
  "recorded_order salt sig =
     \<lparr> o_salt = salt, o_maker = p_maker recorded_params, o_signer = p_signer recorded_params,
       o_taker = p_taker recorded_params, o_tokenId = p_tokenId recorded_params,
       o_makerAmount = p_makerAmount recorded_params, o_takerAmount = p_takerAmount recorded_params,
       o_expiration = p_expiration recorded_params, o_nonce = p_nonce recorded_params,
       o_feeRateBps = p_feeRateBps recorded_params, o_side = p_side recorded_params,
       o_signatureType = p_signatureType recorded_params, o_signature = sig \<rparr>"

definition PYTHON_SIGNATURE :: string where
  "PYTHON_SIGNATURE = ''0xf17d2cdb17146baacbf404baf3e4857b651d74c89fec74a79fd987ca59e0442572d684f0b1951de5b2746082b6765ade05a3168606f6d3dc24423d1603c34be01b''"

definition RUST_ORDER_SIGNATURE :: string where
  "RUST_ORDER_SIGNATURE = ''0x9456c9d3c3a06b227eb067c210fa1221de0455ace43bcd5b3404e3b24cbb1d624e5bc1775909793ad3d9749b1f1f71eebf959e6e92419fc4eb635afe44ed3b921b''"

section \<open>Notions used to state the results\<close>

text \<open>The value of a decimal string, digit by digit from the left.\<close>

definition int_of_decimal :: "string \<Rightarrow> int" where
  "int_of_decimal s = foldl (\<lambda>acc c. acc * 10 + (of_char c - 48)) 0 s"





section \<open>Strings and decimal numbers\<close>

lemma replace_py_single:
  "replace_py [a] [b] s = map (\<lambda>c. if c = a then b else c) s"
  by (induction s) simp_all



lemma replace_py_examples:
  "replace_py ''aa'' ''b'' ''aaa'' = ''ba''"
  "replace_py [] ''-'' ''abc'' = ''-a-b-c-''"
  by code_simp+

lemma digit_char_value:
  assumes "0 \<le> d" and "d < 10"
  shows "(of_char (digit_char d) :: int) = 48 + d"
proof -
  from assms have "(48 + d) mod 256 = 48 + d" by simp
  then show ?thesis by (simp add: digit_char_def)
qed

lemma int_of_decimal_snoc:
  "int_of_decimal (s @ [c]) = int_of_decimal s * 10 + (of_char c - 48)"
  by (simp add: int_of_decimal_def)

lemma str_nonneg_decimal:
  "0 \<le> n \<Longrightarrow> int_of_decimal (str_nonneg n) = n \<and> is_decimal_string (str_nonneg n)"
proof (induction n rule: str_nonneg.induct)
  case (1 n)
  show ?case
  proof (cases "n < 10")
    case True
    with "1.prems" digit_char_value [of n] show ?thesis
      by (subst (1 2) str_nonneg.simps) (simp add: int_of_decimal_def is_decimal_string_def)
  next
    case False
    with "1.prems" have d: "0 \<le> n div 10" and m: "0 \<le> n mod 10" "n mod 10 < 10"
      by simp_all
    from "1.IH" [OF False d] digit_char_value [OF m] False show ?thesis
      by (subst (1 2) str_nonneg.simps) (simp add: int_of_decimal_snoc is_decimal_string_def)
  qed
qed

section \<open>The authentication message\<close>

text \<open>
  C1. For every timestamp, method, path and body, the authentication message is
  \<^verbatim>\<open>str(timestamp)\<close> followed by the method and the path; a body that is present and
  not empty is appended with every single quote replaced by a double quote, and an
  empty or absent body appends nothing. For an integer timestamp \<^verbatim>\<open>str\<close> is its decimal
  string: digits only, with the timestamp as their value.
\<close>

theorem hmac_message_construction:
  "hmac_message timestamp method path body =
     py_str timestamp @ method @ path @
       (case body of
          None \<Rightarrow> []
        | Some b \<Rightarrow> if b \<noteq> [] then map (\<lambda>c. if c = CHR 0x27 then CHR 0x22 else c) b else [])
   \<and> (0 \<le> n \<longrightarrow> is_decimal_string (py_str (PyInt n)) \<and> int_of_decimal (py_str (PyInt n)) = n)"
proof
  show "hmac_message timestamp method path body =
     py_str timestamp @ method @ path @
       (case body of
          None \<Rightarrow> []
        | Some b \<Rightarrow> if b \<noteq> [] then map (\<lambda>c. if c = CHR 0x27 then CHR 0x22 else c) b else [])"
    by (cases body) (simp_all add: hmac_message_def replace_py_single)
  show "0 \<le> n \<longrightarrow> is_decimal_string (py_str (PyInt n)) \<and> int_of_decimal (py_str (PyInt n)) = n"
    using str_nonneg_decimal [of n] by (simp add: str_int_def)
qed

theorem hmac_message_construction_witness:
  "hmac_message (PyInt 1765824355) ''POST'' ''/order'' (Some ''{'a':1}'')
     = ''1765824355POST/order{\"a\":1}''
   \<and> hmac_message (PyInt 1765824355) ''GET'' ''/orders'' (Some []) = ''1765824355GET/orders''
   \<and> hmac_message (PyStr ''1765824355'') ''GET'' ''/orders'' None = ''1765824355GET/orders''
   \<and> int_of_decimal (py_str (PyInt 1765824355)) = 1765824355"
proof -
  have e: "str_int 1765824355 = ''1765824355''"
    by code_simp
  have n: "(0::int) \<le> 1765824355"
    by simp
  from hmac_message_construction [of "PyInt 1765824355" "''POST''" "''/order''" "Some ''{'a':1}''" 1765824355]
    hmac_message_construction [of "PyInt 1765824355" "''GET''" "''/orders''" "Some []" 0]
    hmac_message_construction [of "PyStr ''1765824355''" "''GET''" "''/orders''" None 0]
    n
  show ?thesis
    by (simp add: e)
qed




section \<open>The field-by-field comparison\<close>

lemma py_eq_refl: "py_eq v v"
  by (cases v) simp_all

lemma py_eq_str: "py_eq (PyStr s) w \<longleftrightarrow> w = PyStr s"
  by (cases w) auto

lemma fr_match_compare_field:
  "fr_match (compare_field rust key py_val)
     \<longleftrightarrow> py_eq py_val (dict_get rust key) \<or> key = ''salt'' \<or> key = ''signature''"
  by (simp add: compare_field_def Let_def)

lemma fr_key_compare_field: "fr_key (compare_field rust key py_val) = key"
  by (simp add: compare_field_def Let_def)

lemma overallMatch_values:
  "overallMatch (compare_formats python rust) \<longleftrightarrow>
     (\<forall>(key, py_val) \<in> set python.
        key \<noteq> ''salt'' \<and> key \<noteq> ''signature'' \<longrightarrow> py_eq py_val (dict_get rust key))
     \<and> set (dict_keys rust) = set (dict_keys python)"
  by (auto simp add: overallMatch_def compare_formats_def list_all_iff
      fr_match_compare_field fr_key_compare_field)

text \<open>
  C10. For the keys \<^verbatim>\<open>salt\<close> and \<^verbatim>\<open>signature\<close> the verdict \<^verbatim>\<open>match\<close> is positive
  whatever the two values are, also when the Rust value has another type or is missing;
  the agreement of the types is a verdict of its own and has no part in \<^verbatim>\<open>match\<close>.
\<close>

theorem excluded_fields_always_match:
  assumes "key = ''salt'' \<or> key = ''signature''"
  shows "fr_match (compare_field rust key py_val)
     \<and> fr_type_match (compare_field rust key py_val)
           = Some (type_name py_val = fr_rust_type (compare_field rust key py_val))
     \<and> fr_rust_type (compare_field rust key py_val)
           = (if dict_get rust key \<noteq> PyNone then type_name (dict_get rust key) else ''MISSING'')"
  using assms by (auto simp add: compare_field_def Let_def)

theorem excluded_fields_always_match_witness:
  "fr_match (compare_field [(''salt'', PyStr ''12'')] ''salt'' (PyInt 1297788380))
   \<and> fr_type_match (compare_field [(''salt'', PyStr ''12'')] ''salt'' (PyInt 1297788380)) = Some False
   \<and> fr_match (compare_field [] ''signature'' (PyStr ''0xf1''))
   \<and> fr_type_match (compare_field [] ''signature'' (PyStr ''0xf1'')) = Some False"
  using excluded_fields_always_match [of "''salt''" "[(''salt'', PyStr ''12'')]" "PyInt 1297788380"]
    excluded_fields_always_match [of "''signature''" "[]" "PyStr ''0xf1''"]
  by (simp add: dict_get_def)

text \<open>
  C5, as the code has it. For a key other than \<^verbatim>\<open>salt\<close> and \<^verbatim>\<open>signature\<close> the verdict
  is Python's \<^verbatim>\<open>==\<close> on the two values: two strings match exactly when they are the
  same text. A numeric string with another spelling of the same number and an address
  in another letter case are mismatches.
\<close>

theorem field_comparison_is_value_equality:
  assumes "key \<noteq> ''salt''" and "key \<noteq> ''signature''"
  shows "(fr_match (compare_field rust key py_val) \<longleftrightarrow> py_eq py_val (dict_get rust key))
     \<and> (fr_match (compare_field rust key (PyStr s)) \<longleftrightarrow> dict_get rust key = PyStr s)"
  using assms by (simp add: fr_match_compare_field py_eq_str)

theorem field_comparison_is_value_equality_witness:
  "fr_match (compare_field RUST_ORDER ''makerAmount'' (PyStr ''85000''))
   \<and> \<not> fr_match (compare_field RUST_ORDER ''makerAmount'' (PyStr ''085000''))
   \<and> \<not> fr_match (compare_field RUST_ORDER ''signatureType'' (PyStr ''0''))"
  using field_comparison_is_value_equality [of "''makerAmount''" RUST_ORDER "PyStr ''85000''" "''85000''"]
    field_comparison_is_value_equality [of "''makerAmount''" RUST_ORDER "PyStr ''085000''" "''085000''"]
    field_comparison_is_value_equality [of "''signatureType''" RUST_ORDER "PyStr ''0''" "''0''"]
  by (simp add: RUST_ORDER_def dict_get_def)

theorem structural_comparison_counterexample:
  "\<not> fr_match (compare_field [(''makerAmount'', PyStr ''085000'')] ''makerAmount'' (PyStr ''85000''))
   \<and> int_of_decimal ''085000'' = int_of_decimal ''85000''
   \<and> \<not> fr_match (compare_field [(''maker'', PyStr ''0xefa7cd2e9bfa38f04af95df90da90b194e4ed191'')]
          ''maker'' (PyStr ''0xeFa7Cd2E9BFa38F04Af95df90da90B194e4ed191''))"
  by code_simp

text \<open>
  C4. The flag \<open>overallMatch\<close> holds exactly when every field report of a key other than
  \<^verbatim>\<open>salt\<close> and \<^verbatim>\<open>signature\<close> is a match and no key is extra or missing, that is, when
  the two dictionaries have the same keys and every such value of the Python order
  equals the Rust one. Two dictionaries with the same keys that agree on every key but
  \<^verbatim>\<open>salt\<close> and \<^verbatim>\<open>signature\<close> give \<open>overallMatch\<close>.
\<close>

theorem overall_match_characterisation:
  "(overallMatch (compare_formats python rust) \<longleftrightarrow>
      (\<forall>f \<in> set (field_reports (compare_formats python rust)).
          fr_key f \<noteq> ''salt'' \<and> fr_key f \<noteq> ''signature'' \<longrightarrow> fr_match f)
      \<and> extra_keys (compare_formats python rust) = {}
      \<and> missing_keys (compare_formats python rust) = {})
   \<and> (overallMatch (compare_formats python rust) \<longleftrightarrow>
      (\<forall>(key, py_val) \<in> set python.
          key \<noteq> ''salt'' \<and> key \<noteq> ''signature'' \<longrightarrow> py_eq py_val (dict_get rust key))
      \<and> set (dict_keys rust) = set (dict_keys python))
   \<and> (distinct (dict_keys python) \<and> set (dict_keys rust) = set (dict_keys python)
        \<and> (\<forall>key. key \<noteq> ''salt'' \<and> key \<noteq> ''signature'' \<longrightarrow> map_of rust key = map_of python key)
      \<longrightarrow> overallMatch (compare_formats python rust))"
proof (intro conjI impI)
  show "overallMatch (compare_formats python rust) \<longleftrightarrow>
      (\<forall>f \<in> set (field_reports (compare_formats python rust)).
          fr_key f \<noteq> ''salt'' \<and> fr_key f \<noteq> ''signature'' \<longrightarrow> fr_match f)
      \<and> extra_keys (compare_formats python rust) = {}
      \<and> missing_keys (compare_formats python rust) = {}"
    by (auto simp add: overallMatch_def list_all_iff)
  show "overallMatch (compare_formats python rust) \<longleftrightarrow>
      (\<forall>(key, py_val) \<in> set python.
          key \<noteq> ''salt'' \<and> key \<noteq> ''signature'' \<longrightarrow> py_eq py_val (dict_get rust key))
      \<and> set (dict_keys rust) = set (dict_keys python)"
    by (rule overallMatch_values)
next
  assume a: "distinct (dict_keys python) \<and> set (dict_keys rust) = set (dict_keys python)
        \<and> (\<forall>key. key \<noteq> ''salt'' \<and> key \<noteq> ''signature'' \<longrightarrow> map_of rust key = map_of python key)"
  have "py_eq py_val (dict_get rust key)"
    if "(key, py_val) \<in> set python" "key \<noteq> ''salt''" "key \<noteq> ''signature''" for key py_val
  proof -
    from a that(1) have "map_of python key = Some py_val"
      by (simp add: dict_keys_def)
    with a that(2,3) have "dict_get rust key = py_val"
      by (simp add: dict_get_def)
    then show ?thesis by (simp add: py_eq_refl)
  qed
  with a show "overallMatch (compare_formats python rust)"
    by (auto simp add: overallMatch_values)
qed

theorem overall_match_characterisation_witness:
  "overallMatch (compare_formats PYTHON_ORDER RUST_ORDER)
   \<and> \<not> overallMatch (compare_formats PYTHON_ORDER (RUST_ORDER[10 := (''side'', PyStr ''SELL'')]))"
proof -
  have k: "distinct (dict_keys PYTHON_ORDER) \<and> set (dict_keys RUST_ORDER) = set (dict_keys PYTHON_ORDER)"
    by code_simp
  have v: "map_of RUST_ORDER key = map_of PYTHON_ORDER key"
    if "key \<noteq> ''salt'' \<and> key \<noteq> ''signature''" for key
    using that by (simp add: RUST_ORDER_def PYTHON_ORDER_def)
  have n: "\<not> ((\<forall>(key, py_val) \<in> set PYTHON_ORDER.
          key \<noteq> ''salt'' \<and> key \<noteq> ''signature'' \<longrightarrow>
            py_eq py_val (dict_get (RUST_ORDER[10 := (''side'', PyStr ''SELL'')]) key))
      \<and> set (dict_keys (RUST_ORDER[10 := (''side'', PyStr ''SELL'')])) = set (dict_keys PYTHON_ORDER))"
    by code_simp
  from overall_match_characterisation [of PYTHON_ORDER RUST_ORDER] k v
  have "overallMatch (compare_formats PYTHON_ORDER RUST_ORDER)"
    by blast
  moreover from overall_match_characterisation [of PYTHON_ORDER "RUST_ORDER[10 := (''side'', PyStr ''SELL'')]"] n
  have "\<not> overallMatch (compare_formats PYTHON_ORDER (RUST_ORDER[10 := (''side'', PyStr ''SELL'')]))"
    by blast
  ultimately show ?thesis ..
qed

text \<open>
  C8. A key of one dictionary that the other lacks is listed in the matching difference
  of key sets (extra when only the Rust order has it, missing when only the Python
  order has it); then the key sets are not reported equal and \<open>overallMatch\<close> fails,
  whatever the field reports say.
\<close>

theorem key_drift_is_reported:
  "(key \<in> set (dict_keys rust) \<and> key \<notin> set (dict_keys python) \<longrightarrow>
       key \<in> extra_keys (compare_formats python rust)
       \<and> \<not> same_keys (compare_formats python rust)
       \<and> \<not> overallMatch (compare_formats python rust))
   \<and> (key \<in> set (dict_keys python) \<and> key \<notin> set (dict_keys rust) \<longrightarrow>
       key \<in> missing_keys (compare_formats python rust)
       \<and> \<not> same_keys (compare_formats python rust)
       \<and> \<not> overallMatch (compare_formats python rust))"
  by (auto simp add: overallMatch_def compare_formats_def)

theorem key_drift_is_reported_witness:
  "''owner'' \<in> extra_keys (compare_formats PYTHON_ORDER (RUST_ORDER @ [(''owner'', PyStr ''1a846e10'')]))
   \<and> \<not> overallMatch (compare_formats PYTHON_ORDER (RUST_ORDER @ [(''owner'', PyStr ''1a846e10'')]))
   \<and> ''signature'' \<in> missing_keys (compare_formats PYTHON_ORDER (butlast RUST_ORDER))
   \<and> \<not> overallMatch (compare_formats PYTHON_ORDER (butlast RUST_ORDER))"
proof -
  have a: "''owner'' \<in> set (dict_keys (RUST_ORDER @ [(''owner'', PyStr ''1a846e10'')]))
      \<and> ''owner'' \<notin> set (dict_keys PYTHON_ORDER)"
    by code_simp
  have b: "''signature'' \<in> set (dict_keys PYTHON_ORDER)
      \<and> ''signature'' \<notin> set (dict_keys (butlast RUST_ORDER))"
    by code_simp
  from key_drift_is_reported [of "''owner''" "RUST_ORDER @ [(''owner'', PyStr ''1a846e10'')]" PYTHON_ORDER] a
    key_drift_is_reported [of "''signature''" "butlast RUST_ORDER" PYTHON_ORDER] b
  show ?thesis by blast
qed

section \<open>The recorded orders\<close>

text \<open>The two recorded orders are what the codec gives for the recorded parameters.\<close>

lemma str_int_decimal:
  "0 \<le> n \<Longrightarrow> is_decimal_string (str_int n) \<and> int_of_decimal (str_int n) = n"
  using str_nonneg_decimal [of n] by (simp add: str_int_def)

lemma recorded_python:
  "buildOrder [0, 1, 2] recorded_params 1297788380 = Inr (recorded_order 1297788380 None)"
  "attachSignature (recorded_order 1297788380 None) PYTHON_SIGNATURE
     = Inr (recorded_order 1297788380 (Some PYTHON_SIGNATURE))"
  "serializeForTransport (recorded_order 1297788380 (Some PYTHON_SIGNATURE)) = PYTHON_ORDER"
  by code_simp+

lemma recorded_rust:
  "buildOrder [0, 1, 2] recorded_params 425011855 = Inr (recorded_order 425011855 None)"
  "attachSignature (recorded_order 425011855 None) RUST_ORDER_SIGNATURE
     = Inr (recorded_order 425011855 (Some RUST_ORDER_SIGNATURE))"
  "serializeForTransport (recorded_order 425011855 (Some RUST_ORDER_SIGNATURE)) = RUST_ORDER"
  by code_simp+

text \<open>
  C3, as the code has it. For every order that is built and signed, the transport
  representation has its keys in the declared order; \<^verbatim>\<open>tokenId\<close>, \<^verbatim>\<open>makerAmount\<close>,
  \<^verbatim>\<open>takerAmount\<close>, \<^verbatim>\<open>expiration\<close>, \<^verbatim>\<open>nonce\<close> and \<^verbatim>\<open>feeRateBps\<close> are the decimal
  strings of their values; \<^verbatim>\<open>salt\<close> and \<^verbatim>\<open>signatureType\<close> are native integers; the
  three addresses, the side and the signature are emitted as they were given, with no
  change of letter case.
\<close>

theorem transport_representation:
  assumes "buildOrder known params salt = Inr order"
    and "attachSignature order sig = Inr signed"
  shows "transport_typing (serializeForTransport signed)
     \<and> dict_get (serializeForTransport signed) ''salt'' = PyInt salt
     \<and> dict_get (serializeForTransport signed) ''signatureType'' = PyInt (p_signatureType params)
     \<and> dict_get (serializeForTransport signed) ''tokenId'' = PyStr (str_int (p_tokenId params))
     \<and> dict_get (serializeForTransport signed) ''makerAmount'' = PyStr (str_int (p_makerAmount params))
     \<and> dict_get (serializeForTransport signed) ''takerAmount'' = PyStr (str_int (p_takerAmount params))
     \<and> dict_get (serializeForTransport signed) ''expiration'' = PyStr (str_int (p_expiration params))
     \<and> dict_get (serializeForTransport signed) ''nonce'' = PyStr (str_int (p_nonce params))
     \<and> dict_get (serializeForTransport signed) ''feeRateBps'' = PyStr (str_int (p_feeRateBps params))
     \<and> int_of_decimal (str_int (p_tokenId params)) = p_tokenId params
     \<and> int_of_decimal (str_int (p_makerAmount params)) = p_makerAmount params
     \<and> int_of_decimal (str_int (p_takerAmount params)) = p_takerAmount params
     \<and> int_of_decimal (str_int (p_expiration params)) = p_expiration params
     \<and> int_of_decimal (str_int (p_nonce params)) = p_nonce params
     \<and> int_of_decimal (str_int (p_feeRateBps params)) = p_feeRateBps params
     \<and> dict_get (serializeForTransport signed) ''maker'' = PyStr (p_maker params)
     \<and> dict_get (serializeForTransport signed) ''signer'' = PyStr (p_signer params)
     \<and> dict_get (serializeForTransport signed) ''taker'' = PyStr (p_taker params)
     \<and> dict_get (serializeForTransport signed) ''side'' = PyStr (p_side params)
     \<and> dict_get (serializeForTransport signed) ''signature'' = PyStr sig"
proof -
  let ?built = "\<lparr> o_salt = salt, o_maker = p_maker params, o_signer = p_signer params,
                 o_taker = p_taker params, o_tokenId = p_tokenId params,
                 o_makerAmount = p_makerAmount params, o_takerAmount = p_takerAmount params,
                 o_expiration = p_expiration params, o_nonce = p_nonce params,
                 o_feeRateBps = p_feeRateBps params, o_side = p_side params,
                 o_signatureType = p_signatureType params, o_signature = None \<rparr>"
  from assms(1) have o: "order = ?built"
    by (auto simp add: buildOrder_def split: if_splits)
  from assms(1) have "0 \<le> p_tokenId params" "0 \<le> p_makerAmount params"
    "0 \<le> p_takerAmount params" "0 \<le> p_expiration params" "0 \<le> p_nonce params"
    "0 \<le> p_feeRateBps params"
    by (auto simp add: buildOrder_def fits_bits_def split: if_splits)
  note d = this [THEN str_int_decimal]
  from assms(2) have s: "signed = order\<lparr>o_signature := Some sig\<rparr>"
    by (auto simp add: attachSignature_def split: if_splits)
  from d show ?thesis
    by (simp add: s o serializeForTransport_def transport_typing_def dict_keys_def
        declared_order_def dict_get_def)
qed

theorem transport_representation_witness:
  "transport_typing PYTHON_ORDER \<and> transport_typing RUST_ORDER
   \<and> dict_get PYTHON_ORDER ''salt'' = PyInt 1297788380
   \<and> dict_get RUST_ORDER ''salt'' = PyInt 425011855
   \<and> dict_get PYTHON_ORDER ''maker'' = PyStr ''0xeFa7Cd2E9BFa38F04Af95df90da90B194e4ed191''
   \<and> dict_get RUST_ORDER ''maker'' = PyStr ''0xeFa7Cd2E9BFa38F04Af95df90da90B194e4ed191''"
proof -
  have m: "p_maker recorded_params = ''0xeFa7Cd2E9BFa38F04Af95df90da90B194e4ed191''"
    by (simp add: recorded_params_def)
  from transport_representation [OF recorded_python(1,2)]
    transport_representation [OF recorded_rust(1,2)]
  show ?thesis
    by (simp only: recorded_python(3) recorded_rust(3) m simp_thms)
qed

theorem salt_is_native_integer_counterexample:
  "map_of PYTHON_ORDER ''salt'' = Some (PyInt 1297788380)
   \<and> \<not> is_str (dict_get PYTHON_ORDER ''salt'')
   \<and> map_of RUST_ORDER ''salt'' = Some (PyInt 425011855)
   \<and> \<not> is_str (dict_get RUST_ORDER ''salt'')"
  by (simp add: PYTHON_ORDER_def RUST_ORDER_def dict_get_def)

text \<open>
  C9. Two orders built from the same parameters with different salts, each then signed,
  have the same keys and the same value under every key but \<^verbatim>\<open>salt\<close> and
  \<^verbatim>\<open>signature\<close>: the second is the first with these two fields replaced.
\<close>

theorem salt_isolation:
  assumes "buildOrder known params salt1 = Inr order1"
    and "buildOrder known params salt2 = Inr order2"
    and "attachSignature order1 sig1 = Inr signed1"
    and "attachSignature order2 sig2 = Inr signed2"
  shows "(\<forall>key. key \<noteq> ''salt'' \<and> key \<noteq> ''signature'' \<longrightarrow>
            map_of (serializeForTransport signed1) key = map_of (serializeForTransport signed2) key)
         \<and> dict_keys (serializeForTransport signed1) = dict_keys (serializeForTransport signed2)
         \<and> signed2 = signed1\<lparr>o_salt := salt2, o_signature := Some sig2\<rparr>"
proof -
  from assms(1,2) have "order2 = order1\<lparr>o_salt := salt2\<rparr>"
    by (auto simp add: buildOrder_def split: if_splits)
  moreover from assms(3) have "signed1 = order1\<lparr>o_signature := Some sig1\<rparr>"
    by (auto simp add: attachSignature_def split: if_splits)
  moreover from assms(4) have "signed2 = order2\<lparr>o_signature := Some sig2\<rparr>"
    by (auto simp add: attachSignature_def split: if_splits)
  ultimately show ?thesis
    by (simp add: serializeForTransport_def dict_keys_def)
qed

theorem salt_isolation_witness:
  "buildOrder [0, 1, 2] recorded_params 1297788380 = Inr (recorded_order 1297788380 None)
   \<and> buildOrder [0, 1, 2] recorded_params 425011855 = Inr (recorded_order 425011855 None)
   \<and> list_all (\<lambda>key. map_of PYTHON_ORDER key = map_of RUST_ORDER key)
        [''maker'', ''signer'', ''taker'', ''tokenId'', ''makerAmount'', ''takerAmount'',
         ''expiration'', ''nonce'', ''feeRateBps'', ''side'', ''signatureType'']
   \<and> dict_keys PYTHON_ORDER = dict_keys RUST_ORDER"
  using salt_isolation [OF recorded_python(1) recorded_rust(1) recorded_python(2) recorded_rust(2)]
  by (simp add: recorded_python recorded_rust)


section \<open>Decoding the secret\<close>































section \<open>The signature of the recorded request\<close>

text \<open>The hash and the keyed hash on published test vectors (FIPS 180-4, RFC 4231).\<close>

lemma sha256_abc:
  "sha256 (map of_char ''abc'') =
     [0xba, 0x78, 0x16, 0xbf, 0x8f, 0x01, 0xcf, 0xea, 0x41, 0x41, 0x40, 0xde, 0x5d, 0xae, 0x22, 0x23,
      0xb0, 0x03, 0x61, 0xa3, 0x96, 0x17, 0x7a, 0x9c, 0xb4, 0x10, 0xff, 0x61, 0xf2, 0x00, 0x15, 0xad]"
  by code_simp

lemma hmac_sha256_rfc4231_case2:
  "hmac_sha256 (map of_char ''Jefe'') (map of_char ''what do ya want for nothing?'') =
     [0x5b, 0xdc, 0xc1, 0x46, 0xbf, 0x60, 0x75, 0x4e, 0x6a, 0x04, 0x24, 0x26, 0x08, 0x95, 0x75, 0xc7,
      0x5a, 0x00, 0x3f, 0x08, 0x9d, 0x27, 0x39, 0x83, 0x9d, 0xec, 0x58, 0xb9, 0x64, 0xec, 0x38, 0x43]"
  by code_simp

lemma hmac_sha256_rfc4231_case6:
  "hmac_sha256 (replicate 131 0xaa)
      (map of_char ''Test Using Larger Than Block-Size Key - Hash Key First'') =
     [0x60, 0xe4, 0x31, 0x59, 0x1e, 0xe0, 0xb6, 0x7f, 0x0d, 0x8a, 0x26, 0xaa, 0xcb, 0xf5, 0xb7, 0x7f,
      0x8e, 0x0b, 0xc6, 0x21, 0x37, 0x28, 0xc5, 0x14, 0x05, 0x46, 0x04, 0x0f, 0x0e, 0xe3, 0x7f, 0x54]"
  by code_simp

lemma main_signature_value:
  "main_signature = Inr ''fPOEaxvya1QbVkoRPNrv-kxPjv16Ni_mxrqMgCzm-hc=''"
  by code_simp

text \<open>
  C2. For the secret, timestamp, method, path and body of \<^verbatim>\<open>main\<close>, the signature
  computed is \<^verbatim>\<open>fPOEaxvya1QbVkoRPNrv-kxPjv16Ni_mxrqMgCzm-hc=\<close>; with the trailing pad
  characters stripped on both sides it is the signature logged by the Rust client, and
  the comparison that \<^verbatim>\<open>main\<close> prints is \<^verbatim>\<open>True\<close>.
\<close>

theorem hmac_reference_vector:
  "build_hmac_signature_python_client SECRET_BASE64 (PyStr TIMESTAMP) METHOD PATH (Some BODY)
     = Inr ''fPOEaxvya1QbVkoRPNrv-kxPjv16Ni_mxrqMgCzm-hc=''
   \<and> rstrip_eq ''fPOEaxvya1QbVkoRPNrv-kxPjv16Ni_mxrqMgCzm-hc='' = rstrip_eq RUST_SIGNATURE
   \<and> main_match = Inr True"
proof -
  have s: "rstrip_eq ''fPOEaxvya1QbVkoRPNrv-kxPjv16Ni_mxrqMgCzm-hc='' = RUST_SIGNATURE"
    and r: "rstrip_eq RUST_SIGNATURE = RUST_SIGNATURE"
    by code_simp+
  from main_signature_value have
    "build_hmac_signature_python_client SECRET_BASE64 (PyStr TIMESTAMP) METHOD PATH (Some BODY)
       = Inr ''fPOEaxvya1QbVkoRPNrv-kxPjv16Ni_mxrqMgCzm-hc=''"
    by (simp only: main_signature_def)
  moreover have "main_match = Inr True"
    by (simp only: main_match_def main_signature_value s sum.case simp_thms)
  ultimately show ?thesis
    by (simp only: s r simp_thms)
qed


end
